theory Spec2Isabelle
  imports Main
begin

section \<open>The webhook receiver of kook/message.go\<close>

text \<open>
  A shallow embedding of the webhook half of \<^verbatim>\<open>src/kook/message.go\<close>:
  \<^verbatim>\<open>WebhookHandler\<close>, \<^verbatim>\<open>OnEvent\<close>, \<^verbatim>\<open>HandleRequest\<close>, \<^verbatim>\<open>decodeRequestBody\<close>,
  \<^verbatim>\<open>tryDecryptBody\<close>, \<^verbatim>\<open>decryptWebhookPayload\<close>, \<^verbatim>\<open>pkcs7Unpad\<close>, \<^verbatim>\<open>handleMessage\<close>
  and \<^verbatim>\<open>handleEvent\<close>.

  Go's \<^verbatim>\<open>string\<close> and \<^verbatim>\<open>[]byte\<close> are both sequences of bytes; both are \<^typ>\<open>string\<close>
  here (a list of 8-bit characters). Go's \<^verbatim>\<open>int\<close> is \<^typ>\<open>int\<close>: the code compares
  and indexes with these numbers and never computes with them.
\<close>

type_synonym bytes = string

subsection \<open>Errors\<close>

text \<open>
  One constructor per place where the code makes or passes on an error. The Go errors
  carry a message (and sometimes wrap the library's error); the constructor names the
  place, which is what the callers can tell apart.
\<close>

datatype error =
    ReadBodyFailed                     \<comment> \<open>\<^verbatim>\<open>io.ReadAll(r.Body)\<close>\<close>
  | GzipFailed                         \<comment> \<open>\<^verbatim>\<open>gzip.NewReader\<close> or reading from it\<close>
  | ZlibFailed                         \<comment> \<open>\<^verbatim>\<open>zlib.NewReader\<close> or reading from it\<close>
  | UnsupportedContentEncoding string  \<comment> \<open>the \<^verbatim>\<open>default\<close> case, with the header as given\<close>
  | MissingEncryptKey
  | DecodeEncryptFailed                \<comment> \<open>outer base64\<close>
  | EncryptLengthAbnormal
  | DecodeCipherFailed                 \<comment> \<open>inner base64\<close>
  | CipherNotBlockMultiple
  | AesKeySizeError nat                \<comment> \<open>\<^verbatim>\<open>aes.NewCipher\<close>\<close>
  | InvalidPKCS7Data
  | InvalidPKCS7Padding
  | InvalidPKCS7PaddingByte
  | PanicDivideByZero                  \<comment> \<open>\<^verbatim>\<open>len(data)%blockSize\<close> with \<^verbatim>\<open>blockSize == 0\<close>\<close>
  | ParseMessageFailed                 \<comment> \<open>\<^verbatim>\<open>json.Unmarshal(body, &msg)\<close>\<close>
  | ParseMetaFailed
  | VerifyTokenMismatch
  | ParseEventFailed

subsection \<open>Wire structures\<close>

record WebhookMessage =
  S :: int
  D :: bytes
  SN :: int

record encryptedWebhookMessage =
  Encrypt :: string

record webhookPayloadMeta =
  ChannelType :: string
  VerifyToken :: string
  Challenge :: string

text \<open>
  Modelled from the spec: \<^verbatim>\<open>Event\<close>, \<^verbatim>\<open>EventHandler\<close> and \<^verbatim>\<open>SignalEvent\<close> are declared
  in files of the package that are not under src/. The spec's data model gives an event a
  type (an int) and a content (a string), the two fields \<^verbatim>\<open>handleEvent\<close> reads; a handler
  is called as \<^verbatim>\<open>h(&event)\<close> and either returns or panics; the spec's scenario (a body with
  \<^verbatim>\<open>"s":0\<close> is answered as a challenge) fixes the reserved event signal at 0.
\<close>

record Event =
  Type :: int
  Content :: string

datatype outcome = Returns | Panics string

type_synonym EventHandler = "Event \<Rightarrow> outcome"

definition SignalEvent :: int where
  "SignalEvent = 0"

subsection \<open>The handler and its effects\<close>

text \<open>
  \<^verbatim>\<open>WebhookHandler\<close>: the client is used for its logger only and the mutex guards
  \<^verbatim>\<open>eventHandlers\<close>; logging and locking appear as effects below. A Go map read at a
  missing key gives the zero value, here the empty handler list.
\<close>

record WebhookHandler =
  encryptKey :: string
  verifyToken :: string
  eventHandlers :: "int \<rightharpoonup> EventHandler list"

definition handlersOf :: "WebhookHandler \<Rightarrow> int \<Rightarrow> EventHandler list" where
  "handlersOf wh t = (case eventHandlers wh t of None \<Rightarrow> [] | Some hs \<Rightarrow> hs)"

definition NewWebhookHandler :: "string \<Rightarrow> string \<Rightarrow> WebhookHandler" where
  "NewWebhookHandler key token =
     \<lparr>encryptKey = key, verifyToken = token, eventHandlers = Map.empty\<rparr>"

definition OnEvent :: "WebhookHandler \<Rightarrow> int \<Rightarrow> EventHandler \<Rightarrow> WebhookHandler" where
  "OnEvent wh eventType handler =
     wh\<lparr>eventHandlers := (eventHandlers wh)(eventType \<mapsto> handlersOf wh eventType @ [handler])\<rparr>"

text \<open>
  What one call of \<^verbatim>\<open>HandleRequest\<close> does besides writing the response, in program order:
  log lines, the read lock on the registry, and one \<^verbatim>\<open>go\<close> statement per handler.
\<close>

datatype effect =
    LogError error
  | LogDebugBody bytes
  | LogInfoChallenge
  | LogDebugEvent int string
  | RLock
  | RUnlock
  | Go EventHandler Event

fun spawned :: "effect list \<Rightarrow> (EventHandler \<times> Event) list" where
  "spawned [] = []"
| "spawned (Go h e # fx) = (h, e) # spawned fx"
| "spawned (_ # fx) = spawned fx"

text \<open>
  The body of each goroutine: the deferred \<^verbatim>\<open>recover\<close> turns a panic of the handler into
  a log line; nothing leaves the goroutine.
\<close>

datatype task_result = Finished | Recovered string

definition goroutine :: "EventHandler \<Rightarrow> Event \<Rightarrow> task_result" where
  "goroutine h event = (case h event of Returns \<Rightarrow> Finished | Panics r \<Rightarrow> Recovered r)"

subsection \<open>The standard library\<close>

text \<open>
  The calls into Go's standard library whose results the code branches on. They are
  parameters of the model: every theorem below holds for all of them. A decoder that
  returns an error is \<open>None\<close>. \<^verbatim>\<open>json.Unmarshal\<close> is one decoder per target struct.
  \<open>cbc_CryptBlocks key iv src\<close> is \<^verbatim>\<open>cipher.NewCBCDecrypter(block, iv).CryptBlocks(dst, src)\<close>
  for the AES block of \<open>key\<close>. The \<open>unicode_\<close> fields are the non-ASCII paths
  of \<^verbatim>\<open>strings.ToLower\<close>, \<^verbatim>\<open>strings.TrimSpace\<close> and \<^verbatim>\<open>strings.EqualFold\<close>.
\<close>

record stdlib =
  json_Unmarshal_WebhookMessage :: "bytes \<Rightarrow> WebhookMessage option"
  json_Unmarshal_encrypted :: "bytes \<Rightarrow> encryptedWebhookMessage option"
  json_Unmarshal_meta :: "bytes \<Rightarrow> webhookPayloadMeta option"
  json_Unmarshal_Event :: "bytes \<Rightarrow> Event option"
  base64_DecodeString :: "string \<Rightarrow> bytes option"
  gzip_ReadAll :: "bytes \<Rightarrow> bytes option"
  zlib_ReadAll :: "bytes \<Rightarrow> bytes option"
  cbc_CryptBlocks :: "bytes \<Rightarrow> bytes \<Rightarrow> bytes \<Rightarrow> bytes"
  unicode_ToLower :: "string \<Rightarrow> string"
  unicode_TrimFunc :: "string \<Rightarrow> string"
  unicode_TrimRightFunc :: "string \<Rightarrow> string"
  unicode_EqualFold :: "string \<Rightarrow> string \<Rightarrow> bool"

definition isASCII :: "char \<Rightarrow> bool" where
  "isASCII c = ((of_char c :: nat) < 128)"

definition asciiSpace :: "char \<Rightarrow> bool" where
  "asciiSpace c = (c \<in> set [CHR 0x09, CHR 0x0A, CHR 0x0B, CHR 0x0C, CHR 0x0D, CHR 0x20])"

definition isUpper :: "char \<Rightarrow> bool" where
  "isUpper c = (65 \<le> (of_char c :: nat) \<and> (of_char c :: nat) \<le> 90)"

definition lowerASCII :: "char \<Rightarrow> char" where
  "lowerASCII c = (if isUpper c then char_of ((of_char c :: nat) + 32) else c)"

text \<open>\<^verbatim>\<open>strings.ToLower\<close>: bytewise on an ASCII string, rune by rune otherwise.\<close>

definition strings_ToLower :: "stdlib \<Rightarrow> string \<Rightarrow> string" where
  "strings_ToLower lib s =
     (if list_all isASCII s then map lowerASCII s else unicode_ToLower lib s)"

text \<open>
  \<^verbatim>\<open>strings.TrimSpace\<close>: skips ASCII white space from the left, then from the right, and
  hands over to the rune-wise trimming at the first non-ASCII byte it meets on either
  side.
\<close>

definition strings_TrimSpace :: "stdlib \<Rightarrow> string \<Rightarrow> string" where
  "strings_TrimSpace lib s =
     (case dropWhile asciiSpace s of
        [] \<Rightarrow> []
      | c # cs \<Rightarrow>
          if \<not> isASCII c then unicode_TrimFunc lib (c # cs)
          else let t = rev (dropWhile asciiSpace (rev (c # cs)))
               in if \<not> isASCII (last t) then unicode_TrimRightFunc lib t else t)"

text \<open>
  \<^verbatim>\<open>strings.EqualFold\<close>: byte by byte while both strings are ASCII (equal bytes, or an
  upper-case letter and its lower-case form), rune-wise folding from the first position
  where either byte is not ASCII; strings of different lengths differ.
\<close>

fun strings_EqualFold :: "stdlib \<Rightarrow> string \<Rightarrow> string \<Rightarrow> bool" where
  "strings_EqualFold lib [] [] = True"
| "strings_EqualFold lib (sr # s) (tr # t) =
     (if \<not> isASCII sr \<or> \<not> isASCII tr then unicode_EqualFold lib (sr # s) (tr # t)
      else if tr = sr then strings_EqualFold lib s t
      else if isUpper sr \<and> tr = lowerASCII sr then strings_EqualFold lib s t
      else if isUpper tr \<and> sr = lowerASCII tr then strings_EqualFold lib s t
      else False)"
| "strings_EqualFold lib _ _ = False"

subsection \<open>Transport decoding\<close>

definition decodeRequestBody :: "stdlib \<Rightarrow> bytes \<Rightarrow> string \<Rightarrow> error + bytes" where
  "decodeRequestBody lib body encoding =
     (let e = strings_ToLower lib (strings_TrimSpace lib encoding) in
      if e = '''' \<or> e = ''identity'' then Inr body
      else if e = ''gzip'' then
        (case gzip_ReadAll lib body of None \<Rightarrow> Inl GzipFailed | Some b \<Rightarrow> Inr b)
      else if e = ''deflate'' then
        (case zlib_ReadAll lib body of None \<Rightarrow> Inl ZlibFailed | Some b \<Rightarrow> Inr b)
      else Inl (UnsupportedContentEncoding encoding))"

subsection \<open>Decryption\<close>

text \<open>
  The loop of \<^verbatim>\<open>pkcs7Unpad\<close>: \<^verbatim>\<open>for i := len(data) - pad; i < len(data); i++\<close>, leaving
  with an error at the first byte that differs from \<open>pad\<close>, and the unpadded prefix
  \<^verbatim>\<open>data[:len(data)-pad]\<close> when the loop runs out.
\<close>

function pkcs7Loop :: "bytes \<Rightarrow> nat \<Rightarrow> nat \<Rightarrow> error + bytes" where
  "pkcs7Loop data pad i =
     (if i < length data then
        (if (of_char (data ! i) :: nat) \<noteq> pad then Inl InvalidPKCS7PaddingByte
         else pkcs7Loop data pad (Suc i))
      else Inr (take (length data - pad) data))"
  by pat_completeness auto
termination
  by (relation "measure (\<lambda>(data, pad, i). length data - i)") auto

declare pkcs7Loop.simps [simp del]

text \<open>
  \<^verbatim>\<open>len(data)%blockSize\<close> is Go's remainder: for the non-negative \<^verbatim>\<open>len(data)\<close> it is the
  remainder by the absolute value of a non-zero \<open>blockSize\<close>, and a panic at zero.
  The second disjunct of the first test is evaluated only when the first is false.
\<close>

definition pkcs7Unpad :: "bytes \<Rightarrow> int \<Rightarrow> error + bytes" where
  "pkcs7Unpad data blockSize =
     (if data = [] then Inl InvalidPKCS7Data
      else if blockSize = 0 then Inl PanicDivideByZero
      else if int (length data) mod \<bar>blockSize\<bar> \<noteq> 0 then Inl InvalidPKCS7Data
      else let pad = (of_char (last data) :: nat) in
        if pad = 0 \<or> int pad > blockSize \<or> pad > length data then Inl InvalidPKCS7Padding
        else pkcs7Loop data pad (length data - pad))"

text \<open>\<^verbatim>\<open>aes.NewCipher\<close> accepts keys of 16, 24 and 32 bytes; the block it returns is the key.\<close>

definition aes_NewCipher :: "bytes \<Rightarrow> error + bytes" where
  "aes_NewCipher key =
     (if length key = 16 \<or> length key = 24 \<or> length key = 32 then Inr key
      else Inl (AesKeySizeError (length key)))"

definition aes_BlockSize :: nat where
  "aes_BlockSize = 16"

text \<open>The key as \<^verbatim>\<open>decryptWebhookPayload\<close> prepares it: 32 bytes, zero-filled or cut.\<close>

definition keyBytes :: "string \<Rightarrow> bytes" where
  "keyBytes key =
     (if length key < 32 then key @ replicate (32 - length key) (CHR 0x00)
      else if length key > 32 then take 32 key
      else key)"

definition decryptWebhookPayload :: "stdlib \<Rightarrow> string \<Rightarrow> string \<Rightarrow> error + bytes" where
  "decryptWebhookPayload lib encrypted key =
     (if key = '''' then Inl MissingEncryptKey
      else case base64_DecodeString lib encrypted of
        None \<Rightarrow> Inl DecodeEncryptFailed
      | Some payload \<Rightarrow>
          if length payload \<le> aes_BlockSize then Inl EncryptLengthAbnormal
          else let iv = take aes_BlockSize payload;
                   cipherBase64 = drop aes_BlockSize payload
               in case base64_DecodeString lib cipherBase64 of
                 None \<Rightarrow> Inl DecodeCipherFailed
               | Some cipherText \<Rightarrow>
                   if length cipherText mod aes_BlockSize \<noteq> 0 then Inl CipherNotBlockMultiple
                   else case aes_NewCipher (keyBytes key) of
                     Inl err \<Rightarrow> Inl err
                   | Inr block \<Rightarrow>
                       pkcs7Unpad (cbc_CryptBlocks lib block iv cipherText) (int aes_BlockSize))"

definition tryDecryptBody :: "stdlib \<Rightarrow> WebhookHandler \<Rightarrow> bytes \<Rightarrow> error + bytes" where
  "tryDecryptBody lib wh body =
     (case json_Unmarshal_encrypted lib body of
        None \<Rightarrow> Inr body
      | Some encrypted \<Rightarrow>
          if Encrypt encrypted = '''' then Inr body
          else decryptWebhookPayload lib (Encrypt encrypted) (encryptKey wh))"

subsection \<open>Classification, authentication, dispatch\<close>

definition handleEvent :: "stdlib \<Rightarrow> WebhookHandler \<Rightarrow> WebhookMessage \<Rightarrow> error option \<times> effect list" where
  "handleEvent lib wh msg =
     (case json_Unmarshal_Event lib (D msg) of
        None \<Rightarrow> (Some ParseEventFailed, [])
      | Some event \<Rightarrow>
          let handlers = handlersOf wh (Type event)
          in (None, [LogDebugEvent (Type event) (Content event), RLock, RUnlock]
                    @ map (\<lambda>h. Go h event) handlers))"

definition handleMessage :: "stdlib \<Rightarrow> WebhookHandler \<Rightarrow> WebhookMessage \<Rightarrow> (error + string) \<times> effect list" where
  "handleMessage lib wh msg =
     (if S msg \<noteq> SignalEvent then (Inr '''', [])
      else case json_Unmarshal_meta lib (D msg) of
        None \<Rightarrow> (Inl ParseMetaFailed, [])
      | Some meta \<Rightarrow>
          if verifyToken wh \<noteq> '''' \<and> VerifyToken meta \<noteq> verifyToken wh
            then (Inl VerifyTokenMismatch, [])
          else if strings_EqualFold lib (ChannelType meta) ''WEBHOOK_CHALLENGE''
                  \<and> Challenge meta \<noteq> ''''
            then (Inr (Challenge meta), [LogInfoChallenge])
          else case handleEvent lib wh msg of
                 (Some err, fx) \<Rightarrow> (Inl err, fx)
               | (None, fx) \<Rightarrow> (Inr '''', fx))"

subsection \<open>The HTTP entry point\<close>

text \<open>
  The request as \<^verbatim>\<open>HandleRequest\<close> reads it: the method, the outcome of
  \<^verbatim>\<open>io.ReadAll(r.Body)\<close> and \<^verbatim>\<open>r.Header.Get("Content-Encoding")\<close>.
\<close>

record Request =
  Method :: string
  ReadAll_Body :: "error + bytes"
  Content_Encoding :: string

text \<open>
  The response: status, content type and body. The challenge body is what
  \<^verbatim>\<open>json.NewEncoder(w).Encode\<close> writes for the map it is given.
\<close>

datatype body = Raw bytes | JSON_Encode "(string \<times> string) list"

record Response =
  StatusCode :: nat
  ContentType :: string
  Body :: body

definition http_Error :: "string \<Rightarrow> nat \<Rightarrow> Response" where
  "http_Error msg code =
     \<lparr>StatusCode = code, ContentType = ''text/plain; charset=utf-8'',
      Body = Raw (msg @ [CHR 0x0A])\<rparr>"

text \<open>
  The success path: \<^verbatim>\<open>Content-Type: application/json\<close>, status 200, and the challenge
  map if \<^verbatim>\<open>challenge != ""\<close>, the bytes \<^verbatim>\<open>{"code":0}\<close> otherwise.
\<close>

definition ok_response :: "string \<Rightarrow> Response" where
  \<open>ok_response challenge =
     \<lparr>StatusCode = 200, ContentType = ''application/json'',
      Body = (if challenge \<noteq> '''' then JSON_Encode [(''challenge'', challenge)]
              else Raw ''{"code":0}'')\<rparr>\<close>

definition HandleRequest :: "stdlib \<Rightarrow> WebhookHandler \<Rightarrow> Request \<Rightarrow> Response \<times> effect list" where
  "HandleRequest lib wh r =
     (if Method r \<noteq> ''POST'' then (http_Error ''Method Not Allowed'' 405, [])
      else case ReadAll_Body r of
        Inl err \<Rightarrow> (http_Error ''Bad Request'' 400, [LogError err])
      | Inr body0 \<Rightarrow>
      (case decodeRequestBody lib body0 (Content_Encoding r) of
        Inl err \<Rightarrow> (http_Error ''Bad Request'' 400, [LogError err])
      | Inr body1 \<Rightarrow>
      (case tryDecryptBody lib wh body1 of
        Inl err \<Rightarrow> (http_Error ''Bad Request'' 400, [LogError err])
      | Inr body \<Rightarrow>
      (case json_Unmarshal_WebhookMessage lib body of
        None \<Rightarrow> (http_Error ''Bad Request'' 400, [LogDebugBody body, LogError ParseMessageFailed])
      | Some msg \<Rightarrow>
      (case handleMessage lib wh msg of
        (Inl err, fx) \<Rightarrow>
          (http_Error ''Unauthorized'' 401, LogDebugBody body # fx @ [LogError err])
      | (Inr challenge, fx) \<Rightarrow>
          (ok_response challenge, LogDebugBody body # fx))))))"

subsection \<open>Example requests\<close>

text \<open>
  Literal request bodies, and the results of the library calls on them: what
  \<^verbatim>\<open>encoding/json\<close>, \<^verbatim>\<open>encoding/base64\<close> and AES-256-CBC (\<^verbatim>\<open>crypto/aes\<close>,
  \<^verbatim>\<open>crypto/cipher\<close>) give at exactly these inputs. The closed examples below run the
  model on them. The only other inputs the examples reach are texts that the real
  decoders refuse as well (\<^verbatim>\<open>not json\<close>, \<^verbatim>\<open>!!!\<close>, an array or a string where a struct
  or an int is expected); the decoders of \<open>example_lib\<close> are \<open>None\<close> there.
\<close>

definition body_challenge :: bytes where
  \<open>body_challenge =
     ''{"s":0,"d":{"channel_type":"WEBHOOK_CHALLENGE","verify_token":"t1","challenge":"abc123"}}''\<close>

definition data_challenge :: bytes where
  \<open>data_challenge =
     ''{"channel_type":"WEBHOOK_CHALLENGE","verify_token":"t1","challenge":"abc123"}''\<close>

definition body_challenge_mixed :: bytes where
  \<open>body_challenge_mixed =
     ''{"s":0,"d":{"channel_type":"Webhook_Challenge","challenge":"xyz"}}''\<close>

definition data_challenge_mixed :: bytes where
  \<open>data_challenge_mixed = ''{"channel_type":"Webhook_Challenge","challenge":"xyz"}''\<close>

definition body_event :: bytes where
  \<open>body_event =
     ''{"s":0,"d":{"channel_type":"GROUP","type":5,"content":"hi","verify_token":"t1"},"sn":7}''\<close>

definition data_event :: bytes where
  \<open>data_event = ''{"channel_type":"GROUP","type":5,"content":"hi","verify_token":"t1"}''\<close>

definition body_bad_meta :: bytes where
  \<open>body_bad_meta = ''{"s":0,"d":[1]}''\<close>

definition body_bad_event :: bytes where
  \<open>body_bad_event = ''{"s":0,"d":{"type":"x"}}''\<close>

definition data_bad_event :: bytes where
  \<open>data_bad_event = ''{"type":"x"}''\<close>

definition body_hello :: bytes where
  \<open>body_hello = ''{"s":1,"d":{},"sn":0}''\<close>

text \<open>
  \<open>body_hello\<close> encrypted three times with the initialisation vector \<open>example_iv\<close>:
  under the 10-byte key \<open>key_short\<close> (zero-filled to 32 bytes), under the first 32 bytes
  of the 40-byte key \<open>key_long\<close>, and under 32 zero bytes. Each \<open>enc_\<close> string is
  the \<^verbatim>\<open>encrypt\<close> field: base64 of the vector followed by the base64 of the ciphertext.
\<close>

definition example_iv :: bytes where
  "example_iv = ''abcdefghijklmnop''"

definition key_short :: string where
  "key_short = ''0123456789''"

definition key_long :: string where
  "key_long = ''0123456789abcdefghijklmnopqrstuvwxyz0123''"

definition key_zero :: string where
  "key_zero = replicate 32 (CHR 0x00)"

definition key_wrong :: string where
  "key_wrong = ''wrongkey''"

definition padded_hello :: bytes where
  \<open>padded_hello = ''{"s":1,"d":{},"sn":0}'' @ replicate 11 (CHR 0x0B)\<close>

definition ct_short :: bytes where
  "ct_short =
     [CHR 0x3D, CHR 0x9C, CHR 0xAD, CHR 0x25, CHR 0x17, CHR 0x9D, CHR 0x41, CHR 0xC3,
      CHR 0x26, CHR 0x6D, CHR 0x85, CHR 0x75, CHR 0x73, CHR 0x8E, CHR 0x8B, CHR 0xD4,
      CHR 0x61, CHR 0xDA, CHR 0x90, CHR 0x93, CHR 0x0C, CHR 0x8F, CHR 0x58, CHR 0x34,
      CHR 0xAB, CHR 0x8D, CHR 0xBE, CHR 0x59, CHR 0xCE, CHR 0x76, CHR 0xB2, CHR 0x2C]"

definition inner_short :: string where
  "inner_short = ''PZytJRedQcMmbYV1c46L1GHakJMMj1g0q42+Wc52siw=''"

definition enc_short :: string where
  "enc_short =
     ''YWJjZGVmZ2hpamtsbW5vcFBaeXRKUmVkUWNNbWJZVjFjNDZMMUdIYWtKTU1qMWcwcTQyK1djNTJzaXc9''"

definition body_encrypted :: bytes where
  \<open>body_encrypted =
     ''{"encrypt":"YWJjZGVmZ2hpamtsbW5vcFBaeXRKUmVkUWNNbWJZVjFjNDZMMUdIYWtKTU1qMWcwcTQyK1djNTJzaXc9"}''\<close>

definition ct_long :: bytes where
  "ct_long =
     [CHR 0x53, CHR 0x4F, CHR 0xA8, CHR 0xFD, CHR 0x53, CHR 0x00, CHR 0xEE, CHR 0xC1,
      CHR 0x66, CHR 0xDD, CHR 0x23, CHR 0x57, CHR 0xAE, CHR 0xAC, CHR 0x76, CHR 0xEB,
      CHR 0x0C, CHR 0x3F, CHR 0xE4, CHR 0x50, CHR 0xCD, CHR 0xCE, CHR 0x75, CHR 0xF3,
      CHR 0xE3, CHR 0x48, CHR 0xE3, CHR 0xB4, CHR 0x5A, CHR 0x33, CHR 0x16, CHR 0xA0]"

definition inner_long :: string where
  "inner_long = ''U0+o/VMA7sFm3SNXrqx26ww/5FDNznXz40jjtFozFqA=''"

definition enc_long :: string where
  "enc_long =
     ''YWJjZGVmZ2hpamtsbW5vcFUwK28vVk1BN3NGbTNTTlhycXgyNnd3LzVGRE56blh6NDBqanRGb3pGcUE9''"

definition ct_zero :: bytes where
  "ct_zero =
     [CHR 0x10, CHR 0x44, CHR 0x22, CHR 0x95, CHR 0xC5, CHR 0xC4, CHR 0x55, CHR 0x5A,
      CHR 0x97, CHR 0xA1, CHR 0xC7, CHR 0x86, CHR 0x06, CHR 0xA4, CHR 0x1E, CHR 0x55,
      CHR 0x6C, CHR 0xE8, CHR 0x14, CHR 0xE9, CHR 0xB0, CHR 0xF8, CHR 0xBA, CHR 0x93,
      CHR 0x30, CHR 0x79, CHR 0xBF, CHR 0x54, CHR 0x01, CHR 0xFF, CHR 0xA6, CHR 0x59]"

definition inner_zero :: string where
  "inner_zero = ''EEQilcXEVVqXoceGBqQeVWzoFOmw+LqTMHm/VAH/plk=''"

definition enc_zero :: string where
  "enc_zero =
     ''YWJjZGVmZ2hpamtsbW5vcEVFUWlsY1hFVlZxWG9jZUdCcVFlVld6b0ZPbXcrTHFUTUhtL1ZBSC9wbGs9''"

text \<open>The blocks of \<open>ct_short\<close> decrypted under the zero-filled \<open>key_wrong\<close>.\<close>

definition garbage_wrong :: bytes where
  "garbage_wrong =
     [CHR 0x0D, CHR 0xBD, CHR 0x05, CHR 0x0B, CHR 0x32, CHR 0x85, CHR 0xD2, CHR 0x01,
      CHR 0x97, CHR 0x81, CHR 0x68, CHR 0x59, CHR 0x11, CHR 0x58, CHR 0x6B, CHR 0xCF,
      CHR 0x62, CHR 0xF5, CHR 0xD1, CHR 0xAB, CHR 0x17, CHR 0x7C, CHR 0xBB, CHR 0xCE,
      CHR 0x28, CHR 0x71, CHR 0x3D, CHR 0x12, CHR 0x2B, CHR 0x5C, CHR 0xD7, CHR 0x76]"

definition example_lib :: stdlib where
  \<open>example_lib =
     \<lparr>json_Unmarshal_WebhookMessage = map_of
        [(body_challenge, \<lparr>S = 0, D = data_challenge, SN = 0\<rparr>),
         (body_challenge_mixed, \<lparr>S = 0, D = data_challenge_mixed, SN = 0\<rparr>),
         (body_event, \<lparr>S = 0, D = data_event, SN = 7\<rparr>),
         (body_bad_meta, \<lparr>S = 0, D = ''[1]'', SN = 0\<rparr>),
         (body_bad_event, \<lparr>S = 0, D = data_bad_event, SN = 0\<rparr>),
         (body_hello, \<lparr>S = 1, D = ''{}'', SN = 0\<rparr>)],
      json_Unmarshal_encrypted = map_of
        [(body_challenge, \<lparr>Encrypt = ''''\<rparr>),
         (body_challenge_mixed, \<lparr>Encrypt = ''''\<rparr>),
         (body_event, \<lparr>Encrypt = ''''\<rparr>),
         (body_bad_meta, \<lparr>Encrypt = ''''\<rparr>),
         (body_bad_event, \<lparr>Encrypt = ''''\<rparr>),
         (body_hello, \<lparr>Encrypt = ''''\<rparr>),
         (body_encrypted, \<lparr>Encrypt = enc_short\<rparr>)],
      json_Unmarshal_meta = map_of
        [(data_challenge,
            \<lparr>ChannelType = ''WEBHOOK_CHALLENGE'', VerifyToken = ''t1'', Challenge = ''abc123''\<rparr>),
         (data_challenge_mixed,
            \<lparr>ChannelType = ''Webhook_Challenge'', VerifyToken = '''', Challenge = ''xyz''\<rparr>),
         (data_event, \<lparr>ChannelType = ''GROUP'', VerifyToken = ''t1'', Challenge = ''''\<rparr>),
         (data_bad_event, \<lparr>ChannelType = '''', VerifyToken = '''', Challenge = ''''\<rparr>),
         (''{}'', \<lparr>ChannelType = '''', VerifyToken = '''', Challenge = ''''\<rparr>)],
      json_Unmarshal_Event = map_of
        [(data_event, \<lparr>Type = 5, Content = ''hi''\<rparr>)],
      base64_DecodeString = map_of
        [(enc_short, example_iv @ inner_short), (inner_short, ct_short),
         (enc_long, example_iv @ inner_long), (inner_long, ct_long),
         (enc_zero, example_iv @ inner_zero), (inner_zero, ct_zero),
         (''c2hvcnQ='', ''short''),
         (''YWJjZGVmZ2hpamtsbW5vcCEhISE='', example_iv @ ''!!!!''),
         (''YWJjZGVmZ2hpamtsbW5vcFFVSkQ='', example_iv @ ''QUJD''), (''QUJD'', ''ABC'')],
      gzip_ReadAll = Map.empty,
      zlib_ReadAll = Map.empty,
      cbc_CryptBlocks = (\<lambda>key iv src.
        case map_of
          [((key_short @ replicate 22 (CHR 0x00), example_iv, ct_short), padded_hello),
           ((take 32 key_long, example_iv, ct_long), padded_hello),
           ((key_zero, example_iv, ct_zero), padded_hello),
           ((key_wrong @ replicate 24 (CHR 0x00), example_iv, ct_short), garbage_wrong)]
          (key, iv, src)
        of Some dst \<Rightarrow> dst | None \<Rightarrow> replicate (length src) (CHR 0x00)),
      unicode_ToLower = (\<lambda>s. s),
      unicode_TrimFunc = (\<lambda>s. s),
      unicode_TrimRightFunc = (\<lambda>s. s),
      unicode_EqualFold = (\<lambda>s t. False)\<rparr>\<close>

text \<open>Two handlers for the examples: one returns, one panics.\<close>

definition handler_ok :: EventHandler where
  "handler_ok = (\<lambda>event. Returns)"

definition handler_panics :: EventHandler where
  "handler_panics = (\<lambda>event. Panics ''boom'')"

definition post :: "bytes \<Rightarrow> Request" where
  "post b = \<lparr>Method = ''POST'', ReadAll_Body = Inr b, Content_Encoding = ''''\<rparr>"

subsection \<open>Reaching the classifier\<close>

text \<open>
  \<open>received lib wh r body msg\<close>: the request \<open>r\<close> is a POST whose body was read,
  decoded and decrypted to \<open>body\<close>, and \<open>body\<close> parses as the envelope \<open>msg\<close>;
  that is, \<^verbatim>\<open>HandleRequest\<close> gets as far as calling \<^verbatim>\<open>handleMessage(&msg)\<close>.
\<close>

definition received :: "stdlib \<Rightarrow> WebhookHandler \<Rightarrow> Request \<Rightarrow> bytes \<Rightarrow> WebhookMessage \<Rightarrow> bool" where
  "received lib wh r body msg =
     (Method r = ''POST'' \<and>
      (case ReadAll_Body r of
         Inl err \<Rightarrow> False
       | Inr body0 \<Rightarrow>
           (case decodeRequestBody lib body0 (Content_Encoding r) of
              Inl err \<Rightarrow> False
            | Inr body1 \<Rightarrow> tryDecryptBody lib wh body1 = Inr body)) \<and>
      json_Unmarshal_WebhookMessage lib body = Some msg)"

section \<open>Properties\<close>

subsection \<open>Helper lemmas\<close>

lemmas example_defs =
  example_lib_def body_challenge_def data_challenge_def body_challenge_mixed_def
  data_challenge_mixed_def body_event_def data_event_def
  body_bad_meta_def body_bad_event_def data_bad_event_def body_hello_def body_encrypted_def
  enc_short_def inner_short_def ct_short_def enc_long_def inner_long_def ct_long_def
  enc_zero_def inner_zero_def ct_zero_def example_iv_def key_short_def key_long_def
  key_zero_def key_wrong_def padded_hello_def garbage_wrong_def post_def
  handler_ok_def handler_panics_def

lemma char_eq_char_of_iff: "(c = char_of (n::nat)) = (of_char c = take_bit 8 n)"
  using char_of_eq_iff [of n c] by auto

lemmas strings_defs =
  strings_ToLower_def strings_TrimSpace_def isASCII_def isUpper_def lowerASCII_def
  asciiSpace_def char_of_eq_iff char_eq_char_of_iff

lemmas decrypt_defs =
  tryDecryptBody_def decryptWebhookPayload_def keyBytes_def aes_NewCipher_def
  aes_BlockSize_def pkcs7Unpad_def pkcs7Loop.simps

lemmas request_defs =
  received_def decodeRequestBody_def HandleRequest_def handleMessage_def handleEvent_def
  handlersOf_def NewWebhookHandler_def OnEvent_def SignalEvent_def http_Error_def
  ok_response_def

lemma HandleRequest_received:
  assumes "received lib wh r body msg"
  shows "HandleRequest lib wh r =
     (case handleMessage lib wh msg of
        (Inl err, fx) \<Rightarrow>
          (http_Error ''Unauthorized'' 401, LogDebugBody body # fx @ [LogError err])
      | (Inr challenge, fx) \<Rightarrow> (ok_response challenge, LogDebugBody body # fx))"
  using assms
  by (auto simp: received_def HandleRequest_def split: sum.splits)

lemma spawned_append: "spawned (fx @ gx) = spawned fx @ spawned gx"
  by (induction fx rule: spawned.induct) simp_all

lemma spawned_Go: "spawned (map (\<lambda>h. Go h event) hs) = map (\<lambda>h. (h, event)) hs"
  by (induction hs) simp_all

subsection \<open>The challenge handshake\<close>

text \<open>
  C1 (as amended). A request that reaches the classifier with the event signal, whose
  data has a channel type that folds to \<open>WEBHOOK_CHALLENGE\<close> and a non-empty challenge,
  is answered 200 with the challenge in the body when no verify token is configured or
  the request's token equals it. When a token is configured and the request's token
  differs, the answer is 401: the token is compared before the challenge is looked at.
\<close>

theorem challenge_echo_after_token_check:
  assumes "received lib wh r body msg"
    and "S msg = SignalEvent"
    and "json_Unmarshal_meta lib (D msg) = Some meta"
    and "strings_EqualFold lib (ChannelType meta) ''WEBHOOK_CHALLENGE''"
    and "Challenge meta \<noteq> ''''"
  shows "HandleRequest lib wh r =
     (if verifyToken wh = '''' \<or> VerifyToken meta = verifyToken wh
      then (\<lparr>StatusCode = 200, ContentType = ''application/json'',
             Body = JSON_Encode [(''challenge'', Challenge meta)]\<rparr>,
            [LogDebugBody body, LogInfoChallenge])
      else (http_Error ''Unauthorized'' 401,
            [LogDebugBody body, LogError VerifyTokenMismatch]))"
  using assms
  by (simp add: HandleRequest_received [OF assms(1)] handleMessage_def ok_response_def)

theorem challenge_echo_after_token_check_witness:
  "received example_lib (NewWebhookHandler '''' ''t1'') (post body_challenge) body_challenge
     \<lparr>S = 0, D = data_challenge, SN = 0\<rparr>
   \<and> HandleRequest example_lib (NewWebhookHandler '''' ''t1'') (post body_challenge) =
       (\<lparr>StatusCode = 200, ContentType = ''application/json'',
         Body = JSON_Encode [(''challenge'', ''abc123'')]\<rparr>,
        [LogDebugBody body_challenge, LogInfoChallenge])
   \<and> HandleRequest example_lib (NewWebhookHandler '''' '''') (post body_challenge) =
       (\<lparr>StatusCode = 200, ContentType = ''application/json'',
         Body = JSON_Encode [(''challenge'', ''abc123'')]\<rparr>,
        [LogDebugBody body_challenge, LogInfoChallenge])
   \<and> HandleRequest example_lib (NewWebhookHandler '''' '''') (post body_challenge_mixed) =
       (\<lparr>StatusCode = 200, ContentType = ''application/json'',
         Body = JSON_Encode [(''challenge'', ''xyz'')]\<rparr>,
        [LogDebugBody body_challenge_mixed, LogInfoChallenge])"
proof -
  let ?msg = "\<lparr>S = 0, D = data_challenge, SN = 0\<rparr>"
  let ?meta = "\<lparr>ChannelType = ''WEBHOOK_CHALLENGE'', VerifyToken = ''t1'', Challenge = ''abc123''\<rparr>"
  have rec: "received example_lib (NewWebhookHandler k t) (post body_challenge) body_challenge ?msg"
    for k t
    by (simp add: request_defs strings_defs tryDecryptBody_def example_defs)
  have meta: "json_Unmarshal_meta example_lib (D ?msg) = Some ?meta"
    by (simp add: example_defs)
  have fold: "strings_EqualFold example_lib (ChannelType ?meta) ''WEBHOOK_CHALLENGE''"
    by (simp add: strings_defs)
  let ?msg' = "\<lparr>S = 0, D = data_challenge_mixed, SN = 0\<rparr>"
  let ?meta' = "\<lparr>ChannelType = ''Webhook_Challenge'', VerifyToken = '''', Challenge = ''xyz''\<rparr>"
  have rec': "received example_lib (NewWebhookHandler '''' '''') (post body_challenge_mixed)
      body_challenge_mixed ?msg'"
    by (simp add: request_defs strings_defs tryDecryptBody_def example_defs)
  have meta': "json_Unmarshal_meta example_lib (D ?msg') = Some ?meta'"
    by (simp add: example_defs)
  have fold': "strings_EqualFold example_lib (ChannelType ?meta') ''WEBHOOK_CHALLENGE''"
    by (simp add: strings_defs)
  show ?thesis
    using rec
      challenge_echo_after_token_check [OF rec [of "''''" "''t1''"] _ meta fold]
      challenge_echo_after_token_check [OF rec [of "''''" "''''"] _ meta fold]
      challenge_echo_after_token_check [OF rec' _ meta' fold']
    by (simp add: SignalEvent_def NewWebhookHandler_def)
qed

text \<open>
  The claim as stated fails: with the verify token \<open>secret\<close> configured, the challenge
  request of the spec's scenario (token \<open>t1\<close>) is answered 401 and no challenge is echoed.
\<close>

theorem challenge_not_echoed_counterexample:
  "received example_lib (NewWebhookHandler '''' ''secret'') (post body_challenge) body_challenge
     \<lparr>S = SignalEvent, D = data_challenge, SN = 0\<rparr>
   \<and> json_Unmarshal_meta example_lib data_challenge =
       Some \<lparr>ChannelType = ''WEBHOOK_CHALLENGE'', VerifyToken = ''t1'', Challenge = ''abc123''\<rparr>
   \<and> strings_EqualFold example_lib ''WEBHOOK_CHALLENGE'' ''WEBHOOK_CHALLENGE''
   \<and> HandleRequest example_lib (NewWebhookHandler '''' ''secret'') (post body_challenge) =
       (\<lparr>StatusCode = 401, ContentType = ''text/plain; charset=utf-8'',
         Body = Raw (''Unauthorized'' @ [CHR 0x0A])\<rparr>,
        [LogDebugBody body_challenge, LogError VerifyTokenMismatch])"
  by (simp add: request_defs strings_defs tryDecryptBody_def example_defs)

subsection \<open>Malformed event data\<close>

text \<open>
  C2 (the code at the failing inputs). A POST whose body parses as an envelope with the
  event signal but whose data is an array, so that the metadata decoder fails, is answered
  401 and not 400; likewise when the metadata parses and the event record does not (a
  string where the event type is expected). No handler is started in either case.
\<close>

theorem malformed_data_answered_401:
  "HandleRequest example_lib (OnEvent (NewWebhookHandler '''' '''') 0 handler_ok) (post body_bad_meta) =
     (http_Error ''Unauthorized'' 401, [LogDebugBody body_bad_meta, LogError ParseMetaFailed])
   \<and> HandleRequest example_lib (OnEvent (NewWebhookHandler '''' '''') 0 handler_ok) (post body_bad_event) =
     (http_Error ''Unauthorized'' 401, [LogDebugBody body_bad_event, LogError ParseEventFailed])
   \<and> HandleRequest example_lib (OnEvent (NewWebhookHandler '''' '''') 0 handler_ok) (post ''not json'') =
     (http_Error ''Bad Request'' 400, [LogDebugBody ''not json'', LogError ParseMessageFailed])"
  by (simp add: request_defs strings_defs tryDecryptBody_def example_defs)

subsection \<open>Authentication\<close>

text \<open>
  C3. For a request that reaches the classifier with the event signal and parsable
  metadata: if a verify token is configured and the metadata's token differs from it, the
  answer is 401 and no handler is started, whatever is registered; if no token is
  configured and the request is not a challenge, the token is not compared and the event
  is dispatched (answer 200, one goroutine per handler registered for its type).
\<close>

theorem verify_token_gate:
  assumes "received lib wh r body msg"
    and "S msg = SignalEvent"
    and "json_Unmarshal_meta lib (D msg) = Some meta"
  shows "(verifyToken wh \<noteq> '''' \<and> VerifyToken meta \<noteq> verifyToken wh \<longrightarrow>
            HandleRequest lib wh r =
              (http_Error ''Unauthorized'' 401, [LogDebugBody body, LogError VerifyTokenMismatch])
            \<and> StatusCode (fst (HandleRequest lib wh r)) = 401
            \<and> spawned (snd (HandleRequest lib wh r)) = [])
       \<and> (verifyToken wh = ''''
            \<and> \<not> (strings_EqualFold lib (ChannelType meta) ''WEBHOOK_CHALLENGE'' \<and> Challenge meta \<noteq> '''')
            \<and> json_Unmarshal_Event lib (D msg) = Some event \<longrightarrow>
            fst (HandleRequest lib wh r) = ok_response ''''
            \<and> spawned (snd (HandleRequest lib wh r)) =
                map (\<lambda>h. (h, event)) (handlersOf wh (Type event)))"
  using assms(2,3)
  by (auto simp: HandleRequest_received [OF assms(1)] handleMessage_def handleEvent_def
      http_Error_def spawned_append spawned_Go)

theorem verify_token_gate_witness:
  "HandleRequest example_lib
      (OnEvent (OnEvent (NewWebhookHandler '''' ''secret'') 5 handler_ok) 5 handler_panics)
      (post body_event) =
     (http_Error ''Unauthorized'' 401, [LogDebugBody body_event, LogError VerifyTokenMismatch])
   \<and> spawned (snd (HandleRequest example_lib
      (OnEvent (OnEvent (NewWebhookHandler '''' ''secret'') 5 handler_ok) 5 handler_panics)
      (post body_event))) = []
   \<and> fst (HandleRequest example_lib
      (OnEvent (OnEvent (NewWebhookHandler '''' '''') 5 handler_ok) 5 handler_panics)
      (post body_event)) = ok_response ''''
   \<and> spawned (snd (HandleRequest example_lib
      (OnEvent (OnEvent (NewWebhookHandler '''' '''') 5 handler_ok) 5 handler_panics)
      (post body_event))) =
      [(handler_ok, \<lparr>Type = 5, Content = ''hi''\<rparr>), (handler_panics, \<lparr>Type = 5, Content = ''hi''\<rparr>)]"
proof -
  let ?msg = "\<lparr>S = 0, D = data_event, SN = 7\<rparr>"
  let ?meta = "\<lparr>ChannelType = ''GROUP'', VerifyToken = ''t1'', Challenge = ''''\<rparr>"
  let ?event = "\<lparr>Type = 5, Content = ''hi''\<rparr>"
  let ?reg = "\<lambda>t. OnEvent (OnEvent (NewWebhookHandler '''' t) 5 handler_ok) 5 handler_panics"
  have rec: "received example_lib (?reg t) (post body_event) body_event ?msg" for t
    by (simp add: request_defs strings_defs tryDecryptBody_def example_defs)
  have sig: "S ?msg = SignalEvent"
    by (simp add: SignalEvent_def)
  have meta: "json_Unmarshal_meta example_lib (D ?msg) = Some ?meta"
    by (simp add: example_defs)
  have ev: "json_Unmarshal_Event example_lib (D ?msg) = Some ?event"
    by (simp add: example_defs)
  have hs: "handlersOf (?reg t) 5 = [handler_ok, handler_panics]" for t
    by (simp add: handlersOf_def OnEvent_def NewWebhookHandler_def)
  show ?thesis
    using verify_token_gate [OF rec [of "''secret''"] sig meta, of ?event]
      verify_token_gate [OF rec [of "''''"] sig meta, of ?event] ev hs
    by (simp add: OnEvent_def NewWebhookHandler_def)
qed

subsection \<open>Signals other than the event signal\<close>

text \<open>
  C8. A request that reaches the classifier with a signal kind other than the event signal
  is answered 200 with the body \<^verbatim>\<open>{"code":0}\<close>; nothing but the debug line of the body
  is logged, so no error is reported, and the data, the verify token and the registry are
  not looked at: no authentication, no challenge, no dispatch.
\<close>

theorem other_signal_ignored:
  assumes \<open>received lib wh r body msg\<close>
    and \<open>S msg \<noteq> SignalEvent\<close>
  shows \<open>handleMessage lib wh msg = (Inr '''', [])
       \<and> HandleRequest lib wh r =
           (\<lparr>StatusCode = 200, ContentType = ''application/json'', Body = Raw ''{"code":0}''\<rparr>,
            [LogDebugBody body])
       \<and> spawned (snd (HandleRequest lib wh r)) = []\<close>
  using assms(2)
  by (simp add: HandleRequest_received [OF assms(1)] handleMessage_def ok_response_def)

theorem other_signal_ignored_witness:
  \<open>received example_lib
       (OnEvent (NewWebhookHandler key_short ''secret'') 0 handler_panics)
       (post body_encrypted) body_hello \<lparr>S = 1, D = ''{}'', SN = 0\<rparr>
   \<and> HandleRequest example_lib
       (OnEvent (NewWebhookHandler key_short ''secret'') 0 handler_panics)
       (post body_encrypted) =
      (\<lparr>StatusCode = 200, ContentType = ''application/json'', Body = Raw ''{"code":0}''\<rparr>,
       [LogDebugBody body_hello])\<close>
proof -
  let ?wh = "OnEvent (NewWebhookHandler key_short ''secret'') 0 handler_panics"
  let ?msg = "\<lparr>S = 1, D = ''{}'', SN = 0\<rparr>"
  have rec: "received example_lib ?wh (post body_encrypted) body_hello ?msg"
    by (simp add: request_defs strings_defs decrypt_defs example_defs)
  have sig: "S ?msg \<noteq> SignalEvent"
    by (simp add: SignalEvent_def)
  show ?thesis
    using rec other_signal_ignored [OF rec sig] by simp
qed

subsection \<open>Dispatch\<close>

lemma handlersOf_OnEvent:
  "handlersOf (OnEvent wh t h) t' =
     (if t' = t then handlersOf wh t @ [h] else handlersOf wh t')"
  by (simp add: handlersOf_def OnEvent_def)

lemma handlersOf_registrations:
  "handlersOf (foldl (\<lambda>w th. OnEvent w (fst th) (snd th)) wh regs) t =
     handlersOf wh t @ map snd (filter (\<lambda>th. fst th = t) regs)"
  by (induction regs arbitrary: wh) (simp_all add: handlersOf_OnEvent)

lemma tryDecryptBody_ignores_registry:
  "tryDecryptBody lib (wh\<lparr>eventHandlers := m\<rparr>) b = tryDecryptBody lib wh b"
  by (simp add: tryDecryptBody_def split: option.splits)

lemma handleMessage_ignores_registry:
  "fst (handleMessage lib (wh\<lparr>eventHandlers := m\<rparr>) msg) = fst (handleMessage lib wh msg)"
  by (simp add: handleMessage_def handleEvent_def Let_def split: option.splits)

lemma HandleRequest_response:
  "fst (HandleRequest lib wh r) =
     (if Method r \<noteq> ''POST'' then http_Error ''Method Not Allowed'' 405
      else case ReadAll_Body r of
        Inl err \<Rightarrow> http_Error ''Bad Request'' 400
      | Inr body0 \<Rightarrow>
      (case decodeRequestBody lib body0 (Content_Encoding r) of
        Inl err \<Rightarrow> http_Error ''Bad Request'' 400
      | Inr body1 \<Rightarrow>
      (case tryDecryptBody lib wh body1 of
        Inl err \<Rightarrow> http_Error ''Bad Request'' 400
      | Inr body \<Rightarrow>
      (case json_Unmarshal_WebhookMessage lib body of
        None \<Rightarrow> http_Error ''Bad Request'' 400
      | Some msg \<Rightarrow>
      (case fst (handleMessage lib wh msg) of
        Inl err \<Rightarrow> http_Error ''Unauthorized'' 401
      | Inr challenge \<Rightarrow> ok_response challenge)))))"
  by (simp add: HandleRequest_def split: sum.splits option.splits prod.splits)

lemma response_ignores_registry:
  "fst (HandleRequest lib (wh\<lparr>eventHandlers := m\<rparr>) r) = fst (HandleRequest lib wh r)"
  by (simp only: HandleRequest_response tryDecryptBody_ignores_registry
      handleMessage_ignores_registry)

text \<open>
  C9. When a request reaches the classifier with the event signal, passes the token check,
  is not a challenge and its data parses as the event \<open>event\<close>: the effects of the call
  are the debug lines, the read lock taken and released, and then one \<^verbatim>\<open>go\<close> statement
  per handler in the list the registry holds for the event's type, in the order of that
  list, each with this event; the answer is 200 with \<^verbatim>\<open>{"code":0}\<close>. The list of a type
  is the handlers registered for it, in registration order. Every goroutine ends
  finished or recovered, whatever its handler does, and the response does not depend on
  the registry at all. With no handler registered nothing is started and the answer is
  still 200.
\<close>

theorem dispatch_snapshot:
  assumes "received lib wh r body msg"
    and "S msg = SignalEvent"
    and "json_Unmarshal_meta lib (D msg) = Some meta"
    and "verifyToken wh = '''' \<or> VerifyToken meta = verifyToken wh"
    and "\<not> (strings_EqualFold lib (ChannelType meta) ''WEBHOOK_CHALLENGE'' \<and> Challenge meta \<noteq> '''')"
    and "json_Unmarshal_Event lib (D msg) = Some event"
  shows "HandleRequest lib wh r =
           (ok_response '''',
            [LogDebugBody body, LogDebugEvent (Type event) (Content event), RLock, RUnlock]
            @ map (\<lambda>h. Go h event) (handlersOf wh (Type event)))
       \<and> StatusCode (fst (HandleRequest lib wh r)) = 200
       \<and> spawned (snd (HandleRequest lib wh r)) =
           map (\<lambda>h. (h, event)) (handlersOf wh (Type event))
       \<and> (handlersOf wh (Type event) = [] \<longrightarrow> spawned (snd (HandleRequest lib wh r)) = [])
       \<and> handlersOf (foldl (\<lambda>w th. OnEvent w (fst th) (snd th)) (NewWebhookHandler k v) regs) t =
           map snd (filter (\<lambda>th. fst th = t) regs)
       \<and> map (\<lambda>(h, e). goroutine h e) (spawned (snd (HandleRequest lib wh r))) =
           map (\<lambda>h. case h event of Returns \<Rightarrow> Finished | Panics p \<Rightarrow> Recovered p)
             (handlersOf wh (Type event))
       \<and> fst (HandleRequest lib (wh\<lparr>eventHandlers := m\<rparr>) r) = fst (HandleRequest lib wh r)"
proof -
  have run: "HandleRequest lib wh r =
           (ok_response '''',
            [LogDebugBody body, LogDebugEvent (Type event) (Content event), RLock, RUnlock]
            @ map (\<lambda>h. Go h event) (handlersOf wh (Type event)))"
    using assms(2-6)
    by (auto simp: HandleRequest_received [OF assms(1)] handleMessage_def handleEvent_def)
  have sp: "spawned (snd (HandleRequest lib wh r)) =
           map (\<lambda>h. (h, event)) (handlersOf wh (Type event))"
    by (simp add: run spawned_Go)
  have reg: "handlersOf (foldl (\<lambda>w th. OnEvent w (fst th) (snd th)) (NewWebhookHandler k v) regs) t =
           map snd (filter (\<lambda>th. fst th = t) regs)"
    by (simp add: handlersOf_registrations) (simp add: handlersOf_def NewWebhookHandler_def)
  have go: "map (\<lambda>(h, e). goroutine h e) (spawned (snd (HandleRequest lib wh r))) =
           map (\<lambda>h. case h event of Returns \<Rightarrow> Finished | Panics p \<Rightarrow> Recovered p)
             (handlersOf wh (Type event))"
    by (simp add: sp goroutine_def comp_def)
  have st: "StatusCode (fst (HandleRequest lib wh r)) = 200"
    by (simp add: run ok_response_def)
  show ?thesis
    using run sp reg go st response_ignores_registry by simp
qed

theorem dispatch_snapshot_witness:
  "HandleRequest example_lib
      (foldl (\<lambda>w th. OnEvent w (fst th) (snd th)) (NewWebhookHandler '''' ''t1'')
         [(5, handler_panics), (7, handler_ok), (5, handler_ok)])
      (post body_event) =
     (ok_response '''',
      [LogDebugBody body_event, LogDebugEvent 5 ''hi'', RLock, RUnlock,
       Go handler_panics \<lparr>Type = 5, Content = ''hi''\<rparr>,
       Go handler_ok \<lparr>Type = 5, Content = ''hi''\<rparr>])
   \<and> map (\<lambda>(h, e). goroutine h e) (spawned (snd (HandleRequest example_lib
      (foldl (\<lambda>w th. OnEvent w (fst th) (snd th)) (NewWebhookHandler '''' ''t1'')
         [(5, handler_panics), (7, handler_ok), (5, handler_ok)])
      (post body_event)))) = [Recovered ''boom'', Finished]
   \<and> HandleRequest example_lib (NewWebhookHandler '''' ''t1'') (post body_event) =
     (ok_response '''', [LogDebugBody body_event, LogDebugEvent 5 ''hi'', RLock, RUnlock])"
proof -
  let ?msg = "\<lparr>S = 0, D = data_event, SN = 7\<rparr>"
  let ?meta = "\<lparr>ChannelType = ''GROUP'', VerifyToken = ''t1'', Challenge = ''''\<rparr>"
  let ?event = "\<lparr>Type = 5, Content = ''hi''\<rparr>"
  let ?wh = "foldl (\<lambda>w th. OnEvent w (fst th) (snd th)) (NewWebhookHandler '''' ''t1'')
               [(5, handler_panics), (7, handler_ok), (5, handler_ok)]"
  let ?fresh = "NewWebhookHandler '''' ''t1''"
  have rec: "received example_lib ?wh (post body_event) body_event ?msg"
    by (simp add: request_defs strings_defs tryDecryptBody_def example_defs)
  have rec0: "received example_lib ?fresh (post body_event) body_event ?msg"
    by (simp add: request_defs strings_defs tryDecryptBody_def example_defs)
  have sig: "S ?msg = SignalEvent"
    by (simp add: SignalEvent_def)
  have meta: "json_Unmarshal_meta example_lib (D ?msg) = Some ?meta"
    by (simp add: example_defs)
  have tok: "verifyToken ?wh = '''' \<or> VerifyToken ?meta = verifyToken ?wh"
    by (simp add: OnEvent_def NewWebhookHandler_def)
  have tok0: "verifyToken ?fresh = '''' \<or> VerifyToken ?meta = verifyToken ?fresh"
    by (simp add: NewWebhookHandler_def)
  have nch: "\<not> (strings_EqualFold example_lib (ChannelType ?meta) ''WEBHOOK_CHALLENGE''
               \<and> Challenge ?meta \<noteq> '''')"
    by simp
  have ev: "json_Unmarshal_Event example_lib (D ?msg) = Some ?event"
    by (simp add: example_defs)
  have hs: "handlersOf ?wh 5 = [handler_panics, handler_ok]"
    by (simp add: handlersOf_def OnEvent_def NewWebhookHandler_def)
  have hs0: "handlersOf ?fresh 5 = []"
    by (simp add: handlersOf_def NewWebhookHandler_def)
  have out: "handler_panics ?event = Panics ''boom''" "handler_ok ?event = Returns"
    by (simp_all add: handler_panics_def handler_ok_def)
  show ?thesis
    using dispatch_snapshot [OF rec sig meta tok nch ev]
      dispatch_snapshot [OF rec0 sig meta tok0 nch ev] hs hs0 out
    by (simp add: goroutine_def)
qed

subsection \<open>Plaintext bodies\<close>

text \<open>
  C7. A body that does not parse as an encryption envelope, or parses with an empty
  \<^verbatim>\<open>encrypt\<close> field, comes back from \<^verbatim>\<open>tryDecryptBody\<close> unchanged and without an error,
  whatever key the handler holds.
\<close>

theorem plaintext_passthrough:
  assumes "json_Unmarshal_encrypted lib body = None
         \<or> (\<exists>e. json_Unmarshal_encrypted lib body = Some e \<and> Encrypt e = '''')"
  shows "tryDecryptBody lib wh body = Inr body"
  using assms by (auto simp: tryDecryptBody_def)

theorem plaintext_passthrough_witness:
  "json_Unmarshal_encrypted example_lib ''not json'' = None
   \<and> tryDecryptBody example_lib (NewWebhookHandler key_short '''') ''not json'' = Inr ''not json''
   \<and> json_Unmarshal_encrypted example_lib body_hello = Some \<lparr>Encrypt = ''''\<rparr>
   \<and> tryDecryptBody example_lib (NewWebhookHandler key_short '''') body_hello = Inr body_hello
   \<and> tryDecryptBody example_lib (NewWebhookHandler '''' '''') body_hello = Inr body_hello"
proof -
  have none: "json_Unmarshal_encrypted example_lib ''not json'' = None"
    by (simp add: example_defs)
  have empty: "json_Unmarshal_encrypted example_lib body_hello = Some \<lparr>Encrypt = ''''\<rparr>"
    by (simp add: example_defs)
  have e: "\<exists>e. json_Unmarshal_encrypted example_lib body_hello = Some e \<and> Encrypt e = ''''"
    using empty by simp
  show ?thesis
    using none empty
      plaintext_passthrough [OF disjI1 [OF none], of "NewWebhookHandler key_short ''''"]
      plaintext_passthrough [OF disjI2 [OF e], of "NewWebhookHandler key_short ''''"]
      plaintext_passthrough [OF disjI2 [OF e], of "NewWebhookHandler '''' ''''"]
    by simp
qed

subsection \<open>PKCS7\<close>

lemma pkcs7Loop_result:
  "pkcs7Loop data pad i =
     (if \<exists>j. i \<le> j \<and> j < length data \<and> (of_char (data ! j) :: nat) \<noteq> pad
      then Inl InvalidPKCS7PaddingByte
      else Inr (take (length data - pad) data))"
proof (induction data pad i rule: pkcs7Loop.induct)
  case (1 data pad i)
  show ?case
  proof (cases "i < length data")
    case False
    then show ?thesis by (subst pkcs7Loop.simps) auto
  next
    case inb: True
    show ?thesis
    proof (cases "(of_char (data ! i) :: nat) = pad")
      case False
      with inb show ?thesis by (subst pkcs7Loop.simps) auto
    next
      case True
      have step: "(i \<le> j \<and> j < length data \<and> (of_char (data ! j) :: nat) \<noteq> pad)
          = (Suc i \<le> j \<and> j < length data \<and> (of_char (data ! j) :: nat) \<noteq> pad)" for j
        using True by (cases "j = i") auto
      from inb True "1.IH" show ?thesis by (subst pkcs7Loop.simps) (simp add: step)
    qed
  qed
qed

lemma tail_bytes_iff:
  "(\<exists>j. n \<le> j \<and> j < length data \<and> P (data ! j)) = (\<exists>c \<in> set (drop n data). P c)"
proof
  assume "\<exists>j. n \<le> j \<and> j < length data \<and> P (data ! j)"
  then obtain j where j: "n \<le> j" "j < length data" "P (data ! j)" by blast
  have "drop n data ! (j - n) = data ! j" and "j - n < length (drop n data)"
    using j by simp_all
  then have "data ! j \<in> set (drop n data)"
    using nth_mem [of "j - n" "drop n data"] by simp
  with j show "\<exists>c \<in> set (drop n data). P c" by blast
next
  assume "\<exists>c \<in> set (drop n data). P c"
  then obtain c where c: "c \<in> set (drop n data)" "P c" by blast
  then obtain k where "k < length (drop n data)" "drop n data ! k = c"
    by (auto simp: in_set_conv_nth)
  then have "n \<le> n + k \<and> n + k < length data \<and> P (data ! (n + k))"
    using c by auto
  then show "\<exists>j. n \<le> j \<and> j < length data \<and> P (data ! j)" by blast
qed

lemma pkcs7Loop_tail:
  "pkcs7Loop data p (length data - p) =
     (if \<exists>c \<in> set (drop (length data - p) data). (of_char c :: nat) \<noteq> p
      then Inl InvalidPKCS7PaddingByte
      else Inr (take (length data - p) data))"
  by (simp only: pkcs7Loop_result tail_bytes_iff [where P = "\<lambda>c. (of_char c :: nat) \<noteq> p"])

lemma pkcs7Unpad_errors:
  "pkcs7Unpad data n = Inl e \<Longrightarrow>
     e = InvalidPKCS7Data \<or> e = InvalidPKCS7Padding \<or> e = InvalidPKCS7PaddingByte
     \<or> e = PanicDivideByZero"
  by (auto simp: pkcs7Unpad_def Let_def pkcs7Loop_result split: if_splits)

text \<open>
  C6. On a buffer of whole 16-byte blocks (the shape of a decrypted plaintext), with
  \<open>p\<close> the value of the last byte: \<^verbatim>\<open>pkcs7Unpad\<close> fails if \<open>p\<close> is 0, exceeds 16 or
  exceeds the length of the buffer, fails if one of the last \<open>p\<close> bytes is not \<open>p\<close>,
  and otherwise returns the buffer without its last \<open>p\<close> bytes. The empty buffer, which
  has no last byte, is refused before anything is read.
\<close>

theorem pkcs7Unpad_spec:
  assumes "length data mod 16 = 0"
  shows "pkcs7Unpad data (int aes_BlockSize) =
     (if data = [] then Inl InvalidPKCS7Data
      else let p = (of_char (last data) :: nat) in
        if p = 0 \<or> p > 16 \<or> p > length data then Inl InvalidPKCS7Padding
        else if \<exists>c \<in> set (drop (length data - p) data). (of_char c :: nat) \<noteq> p
          then Inl InvalidPKCS7PaddingByte
        else Inr (take (length data - p) data))"
proof -
  have al: "int (length data) mod 16 = 0"
    using assms by presburger
  show ?thesis
    unfolding pkcs7Unpad_def aes_BlockSize_def Let_def pkcs7Loop_tail
    using al by simp
qed

theorem pkcs7Unpad_spec_witness:
  "length padded_hello mod 16 = 0
   \<and> pkcs7Unpad padded_hello (int aes_BlockSize) = Inr body_hello
   \<and> pkcs7Unpad garbage_wrong (int aes_BlockSize) = Inl InvalidPKCS7Padding
   \<and> pkcs7Unpad (''0123456789abc'' @ [CHR 0x03, CHR 0x02, CHR 0x03]) (int aes_BlockSize)
       = Inl InvalidPKCS7PaddingByte
   \<and> pkcs7Unpad (replicate 16 (CHR 0x10)) (int aes_BlockSize) = Inr []
   \<and> pkcs7Unpad (replicate 15 (CHR ''x'') @ [CHR 0x00]) (int aes_BlockSize) = Inl InvalidPKCS7Padding
   \<and> pkcs7Unpad (replicate 15 (CHR 0x11) @ [CHR 0x11]) (int aes_BlockSize) = Inl InvalidPKCS7Padding"
proof -
  have a: "length padded_hello mod 16 = 0"
    by (simp add: padded_hello_def)
  have b: "length garbage_wrong mod 16 = 0"
    by (simp add: garbage_wrong_def)
  have c: "length (''0123456789abc'' @ [CHR 0x03, CHR 0x02, CHR 0x03]) mod 16 = 0"
    by simp
  have d: "length (replicate 16 (CHR 0x10)) mod 16 = 0"
    "length (replicate 15 (CHR ''x'') @ [CHR 0x00]) mod 16 = 0"
    "length (replicate 15 (CHR 0x11) @ [CHR 0x11]) mod 16 = 0"
    by simp_all
  show ?thesis
    using a pkcs7Unpad_spec [OF a] pkcs7Unpad_spec [OF b] pkcs7Unpad_spec [OF c]
      pkcs7Unpad_spec [OF d(1)] pkcs7Unpad_spec [OF d(2)] pkcs7Unpad_spec [OF d(3)]
    by (simp add: padded_hello_def garbage_wrong_def body_hello_def)
qed


subsection \<open>Decryption\<close>

lemma length_keyBytes: "length (keyBytes key) = 32"
  by (simp add: keyBytes_def)

lemma keyBytes_idem: "keyBytes (keyBytes key) = keyBytes key"
  by (simp add: keyBytes_def)

lemma aes_NewCipher_keyBytes: "aes_NewCipher (keyBytes key) = Inr (keyBytes key)"
  by (simp add: aes_NewCipher_def length_keyBytes)

text \<open>The function after the key check, with the prepared key as its parameter.\<close>

lemma decryptWebhookPayload_unfold:
  "key \<noteq> '''' \<Longrightarrow>
   decryptWebhookPayload lib enc key =
     (case base64_DecodeString lib enc of
        None \<Rightarrow> Inl DecodeEncryptFailed
      | Some payload \<Rightarrow>
          if length payload \<le> 16 then Inl EncryptLengthAbnormal
          else case base64_DecodeString lib (drop 16 payload) of
                 None \<Rightarrow> Inl DecodeCipherFailed
               | Some cipherText \<Rightarrow>
                   if length cipherText mod 16 \<noteq> 0 then Inl CipherNotBlockMultiple
                   else pkcs7Unpad (cbc_CryptBlocks lib (keyBytes key) (take 16 payload) cipherText) 16)"
  by (simp add: decryptWebhookPayload_def aes_BlockSize_def aes_NewCipher_keyBytes Let_def
      split: option.splits)

text \<open>
  C4 (as amended). For a non-empty key shorter than 32 bytes, decrypting with the key and
  decrypting with the key followed by zero bytes up to 32 give the same result; for a key
  longer than 32 bytes, decrypting with the key and with its first 32 bytes give the same
  result. This holds for every payload and every behaviour of the base64 decoder and the
  cipher. (The empty key is the one exception, shown below.)
\<close>

theorem key_normalisation:
  "(key \<noteq> '''' \<and> length key < 32 \<longrightarrow>
      decryptWebhookPayload lib enc key =
      decryptWebhookPayload lib enc (key @ replicate (32 - length key) (CHR 0x00)))
   \<and> (length key > 32 \<longrightarrow>
      decryptWebhookPayload lib enc key = decryptWebhookPayload lib enc (take 32 key))"
proof (intro conjI impI)
  assume k: "key \<noteq> '''' \<and> length key < 32"
  let ?padded = "key @ replicate (32 - length key) (CHR 0x00)"
  have "?padded \<noteq> ''''" and "keyBytes ?padded = keyBytes key"
    using k by (simp_all add: keyBytes_def)
  then show "decryptWebhookPayload lib enc key = decryptWebhookPayload lib enc ?padded"
    using k by (simp add: decryptWebhookPayload_unfold cong: option.case_cong if_cong)
next
  assume k: "length key > 32"
  have "take 32 key \<noteq> ''''" and "key \<noteq> ''''" and "keyBytes (take 32 key) = keyBytes key"
    using k by (auto simp: keyBytes_def)
  then show "decryptWebhookPayload lib enc key = decryptWebhookPayload lib enc (take 32 key)"
    by (simp add: decryptWebhookPayload_unfold cong: option.case_cong if_cong)
qed

theorem key_normalisation_witness:
  "decryptWebhookPayload example_lib enc_short key_short = Inr body_hello
   \<and> decryptWebhookPayload example_lib enc_short (key_short @ replicate 22 (CHR 0x00)) = Inr body_hello
   \<and> decryptWebhookPayload example_lib enc_long key_long = Inr body_hello
   \<and> decryptWebhookPayload example_lib enc_long (take 32 key_long) = Inr body_hello"
proof -
  have short: "decryptWebhookPayload example_lib enc_short key_short = Inr body_hello"
    by (simp add: decrypt_defs example_defs)
  have long: "decryptWebhookPayload example_lib enc_long key_long = Inr body_hello"
    by (simp add: decrypt_defs example_defs)
  have len: "key_short \<noteq> '''' \<and> length key_short < 32" "length key_long > 32"
    "32 - length key_short = 22"
    by (simp_all add: key_short_def key_long_def)
  show ?thesis
    using short long len
      key_normalisation [of key_short example_lib enc_short]
      key_normalisation [of key_long example_lib enc_long]
    by simp
qed

text \<open>
  The claim as stated fails at the empty key, which is shorter than 32 bytes: it is
  refused as "no key configured", while its zero-filled form, 32 zero bytes, is a key
  like any other and decrypts the payload that was encrypted under it.
\<close>

theorem empty_key_counterexample:
  "length '''' < (32::nat)
   \<and> decryptWebhookPayload example_lib enc_zero '''' = Inl MissingEncryptKey
   \<and> decryptWebhookPayload example_lib enc_zero ('''' @ replicate (32 - length '''') (CHR 0x00))
       = Inr body_hello"
  by (simp add: decrypt_defs example_defs)

text \<open>
  C5 (as amended). \<^verbatim>\<open>decryptWebhookPayload\<close> returns an error exactly when one of the
  five checks fails or, all five passing, the PKCS7 unpadding of the decrypted blocks
  fails. The five checks come in this order, each reported only when the earlier ones
  passed: no key; outer base64; outer payload not longer than 16 bytes; inner base64;
  ciphertext length not a multiple of 16. When one of the five fails the result does not
  depend on the cipher: the blocks are not decrypted.
\<close>

theorem decrypt_failures:
  "isl (decryptWebhookPayload lib enc key) =
     (key = '''' \<or>
      (case base64_DecodeString lib enc of
         None \<Rightarrow> True
       | Some payload \<Rightarrow>
           length payload \<le> 16 \<or>
           (case base64_DecodeString lib (drop 16 payload) of
              None \<Rightarrow> True
            | Some cipherText \<Rightarrow>
                length cipherText mod 16 \<noteq> 0 \<or>
                isl (pkcs7Unpad (cbc_CryptBlocks lib (keyBytes key) (take 16 payload) cipherText) 16))))
   \<and> (decryptWebhookPayload lib enc key = Inl MissingEncryptKey) = (key = '''')
   \<and> (decryptWebhookPayload lib enc key = Inl DecodeEncryptFailed) =
       (key \<noteq> '''' \<and> base64_DecodeString lib enc = None)
   \<and> (decryptWebhookPayload lib enc key = Inl EncryptLengthAbnormal) =
       (key \<noteq> '''' \<and> (\<exists>payload. base64_DecodeString lib enc = Some payload \<and> length payload \<le> 16))
   \<and> (decryptWebhookPayload lib enc key = Inl DecodeCipherFailed) =
       (key \<noteq> '''' \<and> (\<exists>payload. base64_DecodeString lib enc = Some payload \<and> length payload > 16
          \<and> base64_DecodeString lib (drop 16 payload) = None))
   \<and> (decryptWebhookPayload lib enc key = Inl CipherNotBlockMultiple) =
       (key \<noteq> '''' \<and> (\<exists>payload cipherText. base64_DecodeString lib enc = Some payload
          \<and> length payload > 16
          \<and> base64_DecodeString lib (drop 16 payload) = Some cipherText
          \<and> length cipherText mod 16 \<noteq> 0))
   \<and> (decryptWebhookPayload lib enc key \<in> Inl ` {MissingEncryptKey, DecodeEncryptFailed,
          EncryptLengthAbnormal, DecodeCipherFailed, CipherNotBlockMultiple} \<longrightarrow>
        decryptWebhookPayload (lib\<lparr>cbc_CryptBlocks := f\<rparr>) enc key = decryptWebhookPayload lib enc key)"
proof (cases "key = ''''")
  case True
  then show ?thesis by (simp add: decryptWebhookPayload_def)
next
  case key: False
  note unf = decryptWebhookPayload_unfold [OF key]
  have pk: "pkcs7Unpad d 16 \<noteq> Inl e"
    if "e \<in> {MissingEncryptKey, DecodeEncryptFailed, EncryptLengthAbnormal,
               DecodeCipherFailed, CipherNotBlockMultiple}" for d e
    using that pkcs7Unpad_errors [of d 16 e] by auto
  show ?thesis
  proof (cases "base64_DecodeString lib enc")
    case None
    then show ?thesis using key by (simp add: unf)
  next
    case outer: (Some payload)
    show ?thesis
    proof (cases "length payload \<le> 16")
      case True
      then show ?thesis using key outer by (simp add: unf)
    next
      case long: False
      show ?thesis
      proof (cases "base64_DecodeString lib (drop 16 payload)")
        case None
        then show ?thesis using key outer long by (simp add: unf)
      next
        case inner: (Some cipherText)
        show ?thesis
        proof (cases "length cipherText mod 16 = 0")
          case False
          then show ?thesis using key outer long inner by (simp add: unf)
        next
          case True
          then show ?thesis using key outer long inner
            by (auto simp: unf image_iff pk)
        qed
      qed
    qed
  qed
qed

theorem decrypt_failures_witness:
  "decryptWebhookPayload example_lib ''!!!'' key_short = Inl DecodeEncryptFailed
   \<and> decryptWebhookPayload (example_lib\<lparr>cbc_CryptBlocks := (\<lambda>key iv src. src)\<rparr>) ''!!!'' key_short
       = Inl DecodeEncryptFailed
   \<and> decryptWebhookPayload example_lib ''c2hvcnQ='' key_short = Inl EncryptLengthAbnormal
   \<and> decryptWebhookPayload example_lib ''YWJjZGVmZ2hpamtsbW5vcCEhISE='' key_short = Inl DecodeCipherFailed
   \<and> decryptWebhookPayload example_lib ''YWJjZGVmZ2hpamtsbW5vcFFVSkQ='' key_short
       = Inl CipherNotBlockMultiple
   \<and> decryptWebhookPayload (example_lib\<lparr>cbc_CryptBlocks := (\<lambda>key iv src. src)\<rparr>)
        ''YWJjZGVmZ2hpamtsbW5vcFFVSkQ='' key_short = Inl CipherNotBlockMultiple"
proof -
  have a: "decryptWebhookPayload example_lib ''!!!'' key_short = Inl DecodeEncryptFailed"
    by (simp add: decrypt_defs example_defs)
  have b: "decryptWebhookPayload example_lib ''c2hvcnQ='' key_short = Inl EncryptLengthAbnormal"
    by (simp add: decrypt_defs example_defs)
  have c: "decryptWebhookPayload example_lib ''YWJjZGVmZ2hpamtsbW5vcCEhISE='' key_short
      = Inl DecodeCipherFailed"
    by (simp add: decrypt_defs example_defs)
  have d: "decryptWebhookPayload example_lib ''YWJjZGVmZ2hpamtsbW5vcFFVSkQ='' key_short
      = Inl CipherNotBlockMultiple"
    by (simp add: decrypt_defs example_defs)
  show ?thesis
    using a b c d
      decrypt_failures [of example_lib "''!!!''" key_short "\<lambda>key iv src. src"]
      decrypt_failures [of example_lib "''YWJjZGVmZ2hpamtsbW5vcFFVSkQ=''" key_short
        "\<lambda>key iv src. src"]
    by simp
qed

text \<open>
  The claim as stated fails: the payload encrypted under \<open>key_short\<close> passes all five
  checks, and decrypting it under another key fails all the same, at the padding.
\<close>

theorem padding_failure_counterexample:
  "key_wrong \<noteq> ''''
   \<and> base64_DecodeString example_lib enc_short = Some (example_iv @ inner_short)
   \<and> \<not> length (example_iv @ inner_short) \<le> 16
   \<and> base64_DecodeString example_lib (drop 16 (example_iv @ inner_short)) = Some ct_short
   \<and> length ct_short mod 16 = 0
   \<and> decryptWebhookPayload example_lib enc_short key_wrong = Inl InvalidPKCS7Padding"
  by (simp add: decrypt_defs example_defs)

subsection \<open>Content-Encoding\<close>

text \<open>
  C10. \<^verbatim>\<open>decodeRequestBody\<close> looks at the header only through its trimmed, lower-cased
  form \<open>n\<close>: when \<open>n\<close> is one of the four supported values the result is the one for
  \<open>n\<close> itself, and otherwise the header is rejected as unsupported; only then. So
  \<^verbatim>\<open>GZIP\<close> and \<^verbatim>\<open>gzip\<close> between blanks behave as \<^verbatim>\<open>gzip\<close>, and likewise for
  \<^verbatim>\<open>deflate\<close> and \<^verbatim>\<open>identity\<close>.
\<close>

theorem content_encoding_normalised:
  "decodeRequestBody lib b e =
     (let n = strings_ToLower lib (strings_TrimSpace lib e) in
      if n \<in> {'''', ''identity'', ''gzip'', ''deflate''} then decodeRequestBody lib b n
      else Inl (UnsupportedContentEncoding e))
   \<and> (\<exists>x. decodeRequestBody lib b e = Inl (UnsupportedContentEncoding x)) =
       (strings_ToLower lib (strings_TrimSpace lib e) \<notin> {'''', ''identity'', ''gzip'', ''deflate''})
   \<and> decodeRequestBody lib b ''GZIP'' = decodeRequestBody lib b ''gzip''
   \<and> decodeRequestBody lib b '' gzip '' = decodeRequestBody lib b ''gzip''
   \<and> decodeRequestBody lib b ''DEFLATE'' = decodeRequestBody lib b ''deflate''
   \<and> decodeRequestBody lib b '' deflate '' = decodeRequestBody lib b ''deflate''
   \<and> decodeRequestBody lib b ''IDENTITY'' = decodeRequestBody lib b ''identity''
   \<and> decodeRequestBody lib b '' identity '' = decodeRequestBody lib b ''identity''
   \<and> decodeRequestBody lib b ''identity'' = Inr b
   \<and> decodeRequestBody lib b '''' = Inr b"
proof -
  have norm: "strings_ToLower lib (strings_TrimSpace lib s) = s"
    if "s \<in> {'''', ''identity'', ''gzip'', ''deflate''}" for s
    using that by (auto simp: strings_defs)
  have up: "strings_ToLower lib (strings_TrimSpace lib ''GZIP'') = ''gzip''"
    "strings_ToLower lib (strings_TrimSpace lib '' gzip '') = ''gzip''"
    "strings_ToLower lib (strings_TrimSpace lib ''DEFLATE'') = ''deflate''"
    "strings_ToLower lib (strings_TrimSpace lib '' deflate '') = ''deflate''"
    "strings_ToLower lib (strings_TrimSpace lib ''IDENTITY'') = ''identity''"
    "strings_ToLower lib (strings_TrimSpace lib '' identity '') = ''identity''"
    by (simp_all add: strings_defs)
  have gen: "decodeRequestBody lib b e =
     (let n = strings_ToLower lib (strings_TrimSpace lib e) in
      if n \<in> {'''', ''identity'', ''gzip'', ''deflate''} then decodeRequestBody lib b n
      else Inl (UnsupportedContentEncoding e))" for e
    using norm [of "strings_ToLower lib (strings_TrimSpace lib e)"]
    by (auto simp: decodeRequestBody_def Let_def)
  have uns: "(\<exists>x. decodeRequestBody lib b e = Inl (UnsupportedContentEncoding x)) =
       (strings_ToLower lib (strings_TrimSpace lib e) \<notin> {'''', ''identity'', ''gzip'', ''deflate''})"
    by (auto simp: decodeRequestBody_def Let_def split: option.splits)
  have ex: "decodeRequestBody lib b ''GZIP'' = decodeRequestBody lib b ''gzip''"
    "decodeRequestBody lib b '' gzip '' = decodeRequestBody lib b ''gzip''"
    "decodeRequestBody lib b ''DEFLATE'' = decodeRequestBody lib b ''deflate''"
    "decodeRequestBody lib b '' deflate '' = decodeRequestBody lib b ''deflate''"
    "decodeRequestBody lib b ''IDENTITY'' = decodeRequestBody lib b ''identity''"
    "decodeRequestBody lib b '' identity '' = decodeRequestBody lib b ''identity''"
    by (simp_all only: gen [of "''GZIP''"] gen [of "'' gzip ''"] gen [of "''DEFLATE''"]
        gen [of "'' deflate ''"] gen [of "''IDENTITY''"] gen [of "'' identity ''"] up Let_def)
      simp_all
  have idn: "decodeRequestBody lib b ''identity'' = Inr b" "decodeRequestBody lib b '''' = Inr b"
    by (simp_all add: decodeRequestBody_def strings_defs)
  show ?thesis
    using gen [of e] uns ex idn by simp
qed


subsection \<open>Further properties of the entry point\<close>

lemma handleMessage_spawns:
  "spawned (snd (handleMessage lib wh msg)) \<noteq> [] \<Longrightarrow> fst (handleMessage lib wh msg) = Inr ''''"
  by (auto simp: handleMessage_def handleEvent_def Let_def split: option.splits if_splits)

text \<open>
  X1. A goroutine is started only by a request that is answered 200 with the body
  \<^verbatim>\<open>{"code":0}\<close>: no error response and no challenge response goes with a dispatch.
\<close>

theorem dispatch_only_on_success:
  "spawned (snd (HandleRequest lib wh r)) \<noteq> [] \<longrightarrow>
     fst (HandleRequest lib wh r) = ok_response ''''"
proof
  assume sp: "spawned (snd (HandleRequest lib wh r)) \<noteq> []"
  then obtain body msg where rec: "received lib wh r body msg"
    by (auto simp: HandleRequest_def received_def split: if_splits sum.splits option.splits)
  obtain res fx where hm: "handleMessage lib wh msg = (res, fx)"
    by (cases "handleMessage lib wh msg")
  from sp have "spawned fx \<noteq> []"
    by (cases res) (simp_all add: HandleRequest_received [OF rec] hm spawned_append)
  with handleMessage_spawns [of lib wh msg] hm have "res = Inr ''''"
    by simp
  with hm show "fst (HandleRequest lib wh r) = ok_response ''''"
    by (simp add: HandleRequest_received [OF rec])
qed

theorem dispatch_only_on_success_witness:
  "spawned (snd (HandleRequest example_lib (OnEvent (NewWebhookHandler '''' ''t1'') 5 handler_ok)
      (post body_event))) = [(handler_ok, \<lparr>Type = 5, Content = ''hi''\<rparr>)]
   \<and> fst (HandleRequest example_lib (OnEvent (NewWebhookHandler '''' ''t1'') 5 handler_ok)
      (post body_event)) = ok_response ''''"
proof -
  have "spawned (snd (HandleRequest example_lib (OnEvent (NewWebhookHandler '''' ''t1'') 5 handler_ok)
      (post body_event))) = [(handler_ok, \<lparr>Type = 5, Content = ''hi''\<rparr>)]"
    by (simp add: request_defs strings_defs tryDecryptBody_def example_defs)
  then show ?thesis
    using dispatch_only_on_success [of example_lib
        "OnEvent (NewWebhookHandler '''' ''t1'') 5 handler_ok" "post body_event"]
    by simp
qed

text \<open>
  X2. Before the classifier: a request that is not a POST is answered 405; a body that
  cannot be read, a transport decoding that fails, a decryption that fails and a body that
  does not parse as an envelope are each answered 400, with the error logged and nothing
  else done.
\<close>

theorem early_failures_answered_400:
  "(Method r \<noteq> ''POST'' \<longrightarrow>
      HandleRequest lib wh r = (http_Error ''Method Not Allowed'' 405, []))
   \<and> (Method r = ''POST'' \<and> ReadAll_Body r = Inl e \<longrightarrow>
      HandleRequest lib wh r = (http_Error ''Bad Request'' 400, [LogError e]))
   \<and> (Method r = ''POST'' \<and> ReadAll_Body r = Inr b0
        \<and> decodeRequestBody lib b0 (Content_Encoding r) = Inl e \<longrightarrow>
      HandleRequest lib wh r = (http_Error ''Bad Request'' 400, [LogError e]))
   \<and> (Method r = ''POST'' \<and> ReadAll_Body r = Inr b0
        \<and> decodeRequestBody lib b0 (Content_Encoding r) = Inr b1
        \<and> tryDecryptBody lib wh b1 = Inl e \<longrightarrow>
      HandleRequest lib wh r = (http_Error ''Bad Request'' 400, [LogError e]))
   \<and> (Method r = ''POST'' \<and> ReadAll_Body r = Inr b0
        \<and> decodeRequestBody lib b0 (Content_Encoding r) = Inr b1
        \<and> tryDecryptBody lib wh b1 = Inr b
        \<and> json_Unmarshal_WebhookMessage lib b = None \<longrightarrow>
      HandleRequest lib wh r =
        (http_Error ''Bad Request'' 400, [LogDebugBody b, LogError ParseMessageFailed]))"
  by (simp add: HandleRequest_def)

theorem early_failures_answered_400_witness:
  "HandleRequest example_lib (NewWebhookHandler '''' '''')
      \<lparr>Method = ''GET'', ReadAll_Body = Inr body_hello, Content_Encoding = ''''\<rparr>
     = (http_Error ''Method Not Allowed'' 405, [])
   \<and> HandleRequest example_lib (NewWebhookHandler '''' '''')
      \<lparr>Method = ''POST'', ReadAll_Body = Inl ReadBodyFailed, Content_Encoding = ''''\<rparr>
     = (http_Error ''Bad Request'' 400, [LogError ReadBodyFailed])
   \<and> HandleRequest example_lib (NewWebhookHandler '''' '''')
      \<lparr>Method = ''POST'', ReadAll_Body = Inr body_hello, Content_Encoding = ''br''\<rparr>
     = (http_Error ''Bad Request'' 400, [LogError (UnsupportedContentEncoding ''br'')])
   \<and> HandleRequest example_lib (NewWebhookHandler '''' '''') (post body_encrypted)
     = (http_Error ''Bad Request'' 400, [LogError MissingEncryptKey])
   \<and> HandleRequest example_lib (NewWebhookHandler '''' '''') (post ''not json'')
     = (http_Error ''Bad Request'' 400, [LogDebugBody ''not json'', LogError ParseMessageFailed])"
proof -
  let ?wh = "NewWebhookHandler '''' ''''"
  let ?get = "\<lparr>Method = ''GET'', ReadAll_Body = Inr body_hello, Content_Encoding = ''''\<rparr>"
  let ?cut = "\<lparr>Method = ''POST'', ReadAll_Body = Inl ReadBodyFailed, Content_Encoding = ''''\<rparr>"
  let ?br = "\<lparr>Method = ''POST'', ReadAll_Body = Inr body_hello, Content_Encoding = ''br''\<rparr>"
  have dec: "decodeRequestBody example_lib body_hello ''br'' = Inl (UnsupportedContentEncoding ''br'')"
    "decodeRequestBody example_lib b '''' = Inr b" for b
    by (simp_all add: decodeRequestBody_def strings_defs example_defs)
  have cry: "tryDecryptBody example_lib ?wh body_encrypted = Inl MissingEncryptKey"
    "tryDecryptBody example_lib ?wh ''not json'' = Inr ''not json''"
    by (simp_all add: decrypt_defs NewWebhookHandler_def example_defs)
  have env: "json_Unmarshal_WebhookMessage example_lib ''not json'' = None"
    by (simp add: example_defs)
  show ?thesis
    using dec cry env
      early_failures_answered_400 [where r = ?get and lib = example_lib and wh = ?wh]
      early_failures_answered_400 [where r = ?cut and lib = example_lib and wh = ?wh
        and e = ReadBodyFailed]
      early_failures_answered_400 [where r = ?br and lib = example_lib and wh = ?wh
        and e = "UnsupportedContentEncoding ''br''" and ?b0.0 = body_hello]
      early_failures_answered_400 [where r = "post body_encrypted" and lib = example_lib
        and wh = ?wh and e = MissingEncryptKey and ?b0.0 = body_encrypted
        and ?b1.0 = body_encrypted]
      early_failures_answered_400 [where r = "post ''not json''" and lib = example_lib
        and wh = ?wh and ?b0.0 = "''not json''" and ?b1.0 = "''not json''"
        and b = "''not json''"]
    by (simp add: post_def)
qed


end
